theory Spec2Isabelle
  imports Main "HOL-Library.Word"
begin

section \<open>The expiring cache of the short-link generator\<close>

text \<open>
  A model of package \<open>cache_manager\<close>: the struct \<open>Cache\<close>, its entries \<open>Value\<close>, the
  operations \<open>CacheCreate\<close>, \<open>Set\<close>, \<open>Get\<close>, \<open>Delete\<close> and the two phases \<open>expiredKeys\<close>
  and \<open>clearValues\<close> of the collector \<open>gC\<close>.

  The model is sequential: every operation runs from its lock acquisition to its
  release without another one in between, so the embedded \<open>sync.RWMutex\<close> has no
  field of its own. What the Go runtime decides is a parameter of the operation that
  depends on it: the readings of \<open>time.Now()\<close>, and the order in which \<open>range\<close> visits
  a map.
\<close>

subsection \<open>Time\<close>

text \<open>
  \<open>time.Duration\<close> and the field \<open>Expiration\<close> are \<open>int64\<close>: 64-bit words, compared as
  signed numbers (\<open><s\<close>, \<open>\<le>s\<close>). An instant \<open>time.Time\<close> is the number of nanoseconds
  since the Unix epoch, as an unbounded integer: Go's \<open>Time\<close> reaches far beyond what
  an \<open>int64\<close> of nanoseconds holds, \<open>Add\<close> is exact (it saturates only at the ends of
  that range, hundreds of billions of years away), and \<open>UnixNano\<close> is where the 64
  bits cut: it computes seconds times \<open>1e9\<close> plus nanoseconds in \<open>int64\<close>, which wraps.
\<close>

type_synonym int64 = "64 word"
type_synonym Duration = int64
type_synonym Time = int

definition Add :: "Time \<Rightarrow> Duration \<Rightarrow> Time" where
  "Add t d = t + sint d"

definition UnixNano :: "Time \<Rightarrow> int64" where
  "UnixNano t = word_of_int t"

definition Millisecond :: Duration where
  "Millisecond = 1000000"

subsection \<open>Data\<close>

record Value =
  CreateTime :: Time
  Expiration :: int64
  Value :: string

text \<open>
  The field \<open>data\<close> is a Go map, which is a reference: \<open>None\<close> is the \<open>nil\<close> map of a
  zero \<open>Cache\<close>, \<open>Some m\<close> a map made by \<open>make\<close>.
\<close>

record Cache =
  defaultExpiration :: Duration
  cleanupTime :: Duration
  data :: "(string \<rightharpoonup> Value) option"

text \<open>Reading a \<open>nil\<close> map is reading an empty one.\<close>

definition entries :: "Cache \<Rightarrow> (string \<rightharpoonup> Value)" where
  "entries c = (case data c of None \<Rightarrow> Map.empty | Some m \<Rightarrow> m)"

datatype error = errors_New string

datatype panic = AssignmentToEntryInNilMap

subsection \<open>Operations\<close>

text \<open>
  \<open>CacheCreate\<close> also starts the collector as a goroutine when \<open>cleanupTime > 0\<close>; here
  the collector's iterations are applied explicitly (\<open>gC_tick\<close>).
\<close>

definition CacheCreate :: "Duration \<Rightarrow> Duration \<Rightarrow> Cache" where
  "CacheCreate defaultExpiration' cleanupTime' =
     \<lparr>defaultExpiration = defaultExpiration', cleanupTime = cleanupTime',
      data = Some Map.empty\<rparr>"

text \<open>
  \<open>Set\<close> reads the clock twice: \<open>now\<close> for the expiration, before taking the lock, and
  \<open>now'\<close> for \<open>CreateTime\<close>. Writing to a \<open>nil\<close> map panics.
\<close>

definition Set :: "Cache \<Rightarrow> Time \<Rightarrow> Time \<Rightarrow> string \<Rightarrow> string \<Rightarrow> Duration \<Rightarrow> panic + Cache" where
  "Set c now now' key val duration =
     (let duration = (if duration = 0 then defaultExpiration c else duration);
          expiration = (if 0 <s duration then UnixNano (Add now duration) else 0)
      in case data c of
           None \<Rightarrow> Inl AssignmentToEntryInNilMap
         | Some m \<Rightarrow>
             Inr (c\<lparr>data := Some (m(key \<mapsto>
               \<lparr>CreateTime = now', Expiration = expiration, Value = val\<rparr>))\<rparr>))"

text \<open>\<open>Get\<close> returns the pair of the source and the cache as it leaves it.\<close>

definition Get :: "Cache \<Rightarrow> Time \<Rightarrow> string \<Rightarrow> (string \<times> bool) \<times> Cache" where
  "Get c now key =
     (case entries c key of
        None \<Rightarrow> (('''', False), c)
      | Some item \<Rightarrow>
          if 0 <s Expiration item \<and> Expiration item <s UnixNano now
          then (('''', False), c)
          else ((Value item, True), c))"

definition Delete :: "Cache \<Rightarrow> string \<Rightarrow> error option \<times> Cache" where
  "Delete c key =
     (case entries c key of
        None \<Rightarrow> (Some (errors_New ''error: Key not found''), c)
      | Some _ \<Rightarrow> (None, c\<lparr>data := Some ((entries c)(key := None))\<rparr>))"

subsection \<open>The collector\<close>

text \<open>
  \<open>expiredKeys\<close> ranges over the map. Go leaves the order of a \<open>range\<close> over a map open,
  so the order is the list \<open>order\<close>, and \<open>range_of\<close> says that it visits every key
  of the map once. The clock is read again at each entry with a positive expiration:
  \<open>clock k\<close> is the reading at the visit of key \<open>k\<close>. A key of \<open>order\<close> that is not
  in the map is passed over; under \<open>range_of\<close> there is none.
\<close>

definition range_of :: "Cache \<Rightarrow> string list \<Rightarrow> bool" where
  "range_of c order = (distinct order \<and> set order = dom (entries c))"

fun expiredKeys_loop ::
  "(string \<rightharpoonup> Value) \<Rightarrow> (string \<Rightarrow> Time) \<Rightarrow> string list \<Rightarrow> string list \<Rightarrow> string list" where
  "expiredKeys_loop m clock [] keys = keys"
| "expiredKeys_loop m clock (k # order) keys =
     (case m k of
        None \<Rightarrow> expiredKeys_loop m clock order keys
      | Some i \<Rightarrow>
          if 0 <s Expiration i \<and> Expiration i <s UnixNano (clock k)
          then expiredKeys_loop m clock order (keys @ [k])
          else expiredKeys_loop m clock order keys)"

definition expiredKeys :: "Cache \<Rightarrow> string list \<Rightarrow> (string \<Rightarrow> Time) \<Rightarrow> string list" where
  "expiredKeys c order clock = expiredKeys_loop (entries c) clock order []"

text \<open>\<open>delete\<close> on a \<open>nil\<close> map does nothing.\<close>

fun clearValues_loop :: "(string \<rightharpoonup> Value) \<Rightarrow> string list \<Rightarrow> (string \<rightharpoonup> Value)" where
  "clearValues_loop m [] = m"
| "clearValues_loop m (k # keys) = clearValues_loop (m(k := None)) keys"

definition clearValues :: "Cache \<Rightarrow> string list \<Rightarrow> Cache" where
  "clearValues c keys =
     (case data c of
        None \<Rightarrow> c
      | Some m \<Rightarrow> c\<lparr>data := Some (clearValues_loop m keys)\<rparr>)"

text \<open>
  One iteration of the loop of \<open>gC\<close>, after the timer has fired: \<open>None\<close> is the
  \<open>return\<close> that ends the goroutine, \<open>Some c'\<close> the cache at the end of the iteration.
\<close>

definition gC_tick :: "Cache \<Rightarrow> string list \<Rightarrow> (string \<Rightarrow> Time) \<Rightarrow> Cache option" where
  "gC_tick c order clock =
     (if data c = None then None
      else let keys = expiredKeys c order clock
           in if length keys \<noteq> 0 then Some (clearValues c keys) else Some c)"

text \<open>
  The loop of \<open>gC\<close> never ends by itself. \<open>gC c ticks\<close> runs its first iterations,
  one for each firing of the timer in \<open>ticks\<close>, which gives the order of the \<open>range\<close>
  and the clock of that iteration, and stops early when the goroutine returns.
\<close>

fun gC :: "Cache \<Rightarrow> (string list \<times> (string \<Rightarrow> Time)) list \<Rightarrow> Cache" where
  "gC c [] = c"
| "gC c ((order, clock) # ticks) =
     (case gC_tick c order clock of None \<Rightarrow> c | Some c' \<Rightarrow> gC c' ticks)"

subsection \<open>Example states\<close>

text \<open>
  \<open>cache_a\<close> is the cache after \<open>Set("a", "1", 10ms)\<close> at clock 1000 on a new cache
  without default expiration; \<open>cache_abc\<close> holds an entry that expires at 1010, one
  that never expires and one that expires at 5000.
\<close>

definition cache_a :: Cache where
  "cache_a = \<lparr>defaultExpiration = 0, cleanupTime = 0,
     data = Some [''a'' \<mapsto> \<lparr>CreateTime = 1001, Expiration = 10001000, Value = ''1''\<rparr>]\<rparr>"

definition cache_abc :: Cache where
  "cache_abc = \<lparr>defaultExpiration = 0, cleanupTime = 10 * Millisecond,
     data = Some [''a'' \<mapsto> \<lparr>CreateTime = 10, Expiration = 1010, Value = ''1''\<rparr>,
                  ''b'' \<mapsto> \<lparr>CreateTime = 20, Expiration = 0, Value = ''2''\<rparr>,
                  ''c'' \<mapsto> \<lparr>CreateTime = 30, Expiration = 5000, Value = ''3''\<rparr>]\<rparr>"

section \<open>Properties\<close>

subsection \<open>Clock readings as 64-bit nanoseconds\<close>

lemma sint_UnixNano: "- (2 ^ 63) \<le> t \<Longrightarrow> t < 2 ^ 63 \<Longrightarrow> sint (UnixNano t) = t"
  unfolding UnixNano_def by (simp add: sint_sbintrunc' signed_take_bit_int_eq_self)

lemma UnixNano_positive: "0 < t \<Longrightarrow> t < 2 ^ 63 \<Longrightarrow> 0 <s UnixNano t"
  by (simp add: word_sless_alt sint_UnixNano)

lemma UnixNano_sless:
  "- (2 ^ 63) \<le> s \<Longrightarrow> s < t \<Longrightarrow> t < 2 ^ 63 \<Longrightarrow> UnixNano s <s UnixNano t"
  by (simp add: word_sless_alt sint_UnixNano)

subsection \<open>The map stays allocated\<close>

text \<open>
  \<open>CacheCreate\<close> makes the map and no operation sets the field to \<open>nil\<close>, so every cache
  that comes from \<open>CacheCreate\<close> satisfies \<open>data c \<noteq> None\<close>, and \<open>Set\<close> on it does not
  panic.
\<close>

lemma CacheCreate_data: "data (CacheCreate d ct) = Some Map.empty"
  by (simp add: CacheCreate_def)

lemma Set_allocated:
  "data c \<noteq> None \<Longrightarrow> \<exists>c'. Set c now now' key val d = Inr c'"
  by (auto simp: Set_def Let_def)

lemma Set_nil_panics: "data c = None \<Longrightarrow> Set c now now' key val d = Inl AssignmentToEntryInNilMap"
  by (simp add: Set_def Let_def)

lemma Set_entries:
  assumes "Set c now now' key val d = Inr c'"
  shows "entries c' = (entries c)(key \<mapsto> \<lparr>CreateTime = now',
           Expiration = (if 0 <s (if d = 0 then defaultExpiration c else d)
                         then UnixNano (Add now (if d = 0 then defaultExpiration c else d))
                         else 0),
           Value = val\<rparr>)"
    and "defaultExpiration c' = defaultExpiration c"
    and "cleanupTime c' = cleanupTime c"
    and "data c' \<noteq> None"
  using assms by (auto simp: Set_def Let_def entries_def split: option.splits)

lemma Delete_allocated: "data c \<noteq> None \<Longrightarrow> data (snd (Delete c key)) \<noteq> None"
  by (simp add: Delete_def split: option.splits)

subsection \<open>The two loops of the collector\<close>

lemma expiredKeys_loop_set:
  "set (expiredKeys_loop m clock order keys) =
     set keys \<union> {k \<in> set order.
       \<exists>i. m k = Some i \<and> 0 <s Expiration i \<and> Expiration i <s UnixNano (clock k)}"
  by (induction order arbitrary: keys) (auto split: option.splits)

lemma expiredKeys_set:
  "set (expiredKeys c order clock) =
     {k \<in> set order.
       \<exists>i. entries c k = Some i \<and> 0 <s Expiration i \<and> Expiration i <s UnixNano (clock k)}"
  by (simp add: expiredKeys_def expiredKeys_loop_set)

lemma clearValues_loop_apply:
  "clearValues_loop m keys k = (if k \<in> set keys then None else m k)"
  by (induction keys arbitrary: m) auto

lemma entries_clearValues:
  "entries (clearValues c keys) k = (if k \<in> set keys then None else entries c k)"
  by (simp add: clearValues_def entries_def clearValues_loop_apply split: option.splits)

lemma clearValues_fields:
  "defaultExpiration (clearValues c keys) = defaultExpiration c"
  "cleanupTime (clearValues c keys) = cleanupTime c"
  "(data (clearValues c keys) = None) = (data c = None)"
  by (simp_all add: clearValues_def split: option.splits)

lemma clearValues_Nil: "clearValues c [] = c"
  by (simp add: clearValues_def split: option.splits)

lemma gC_tick_allocated:
  "data c \<noteq> None \<Longrightarrow>
     gC_tick c order clock = Some (clearValues c (expiredKeys c order clock))"
  by (simp add: gC_tick_def Let_def clearValues_Nil)

lemma gC_tick_nil: "data c = None \<Longrightarrow> gC_tick c order clock = None"
  by (simp add: gC_tick_def)

lemma gC_tick_keeps:
  assumes "entries c key = Some item" and "Expiration item \<le>s 0"
    and "gC_tick c order clock = Some c'"
  shows "entries c' key = Some item"
proof -
  from assms(1) have a: "data c \<noteq> None"
    by (auto simp: entries_def split: option.splits)
  have "key \<notin> set (expiredKeys c order clock)"
    using assms(1,2) by (auto simp: expiredKeys_set)
  with assms a show ?thesis
    by (auto simp: gC_tick_allocated entries_clearValues)
qed

lemma gC_keeps:
  assumes "entries c key = Some item" and "Expiration item \<le>s 0"
  shows "entries (gC c ticks) key = Some item"
  using assms
proof (induction ticks arbitrary: c)
  case Nil
  then show ?case by simp
next
  case (Cons tick ticks)
  obtain order clock where tick: "tick = (order, clock)" by (cases tick)
  show ?case
  proof (cases "gC_tick c order clock")
    case None
    with Cons.prems tick show ?thesis by simp
  next
    case (Some c')
    with Cons.prems have "entries c' key = Some item" by (auto dest: gC_tick_keeps)
    with Cons.IH Cons.prems(2) Some tick show ?thesis by simp
  qed
qed

subsection \<open>Reads\<close>

text \<open>
  C1, as the code has it. An entry that \<open>Get\<close> returns as found either has no expiration
  (\<open>Expiration \<le> 0\<close>) or has not been passed by the clock reading of the check:
  the reading is at most \<open>Expiration\<close>. The comparison of \<open>Get\<close> is \<open>now > Expiration\<close>,
  so the entry is still live at the very nanosecond of its expiration.
\<close>

theorem Get_found_not_past:
  assumes "fst (Get c now key) = (v, True)"
  shows "\<exists>item. entries c key = Some item \<and> Value item = v \<and>
           (Expiration item \<le>s 0 \<or> UnixNano now \<le>s Expiration item)"
  using assms by (auto simp: Get_def split: option.splits if_splits)

theorem Get_found_not_past_witness:
  "fst (Get cache_a 5001000 ''a'') = (''1'', True) \<and>
   (\<exists>item. entries cache_a ''a'' = Some item \<and> Value item = ''1'' \<and>
      (Expiration item \<le>s 0 \<or> UnixNano 5001000 \<le>s Expiration item))"
proof -
  have found: "fst (Get cache_a 5001000 ''a'') = (''1'', True)"
    by (simp add: Get_def cache_a_def entries_def UnixNano_def word_sless_alt)
  from Get_found_not_past [OF found] found show ?thesis by blast
qed

text \<open>
  C1, as stated, fails when the clock reads exactly the expiration: \<open>Set("a", "1", 10ms)\<close>
  at clock 1000 stores \<open>Expiration = 10001000\<close>, and \<open>Get("a")\<close> at clock 10001000
  returns the entry as found, although its expiration is positive and not strictly
  after the reading.
\<close>

theorem Get_found_at_expiration_counterexample:
  "Set (CacheCreate 0 0) 1000 1001 ''a'' ''1'' (10 * Millisecond) = Inr cache_a \<and>
   entries cache_a ''a'' = Some \<lparr>CreateTime = 1001, Expiration = 10001000, Value = ''1''\<rparr> \<and>
   fst (Get cache_a 10001000 ''a'') = (''1'', True) \<and>
   \<not> (10001000 :: int64) \<le>s 0 \<and>
   \<not> UnixNano 10001000 <s (10001000 :: int64)"
  by (simp add: Set_def CacheCreate_def cache_a_def Get_def entries_def Add_def UnixNano_def
        Millisecond_def word_sless_alt word_sle_eq)

text \<open>
  C3. \<open>Get\<close> reports not found for a key that is not in the map, and for an entry with
  a positive expiration that the clock has strictly passed; for an entry that the clock
  has not passed it returns the stored value as found.
\<close>

theorem Get_lookup:
  "(entries c key = None \<longrightarrow> fst (Get c now key) = ('''', False)) \<and>
   (\<forall>item. entries c key = Some item \<and> 0 <s Expiration item \<and> Expiration item <s UnixNano now
      \<longrightarrow> fst (Get c now key) = ('''', False)) \<and>
   (\<forall>item. entries c key = Some item \<and> \<not> Expiration item <s UnixNano now
      \<longrightarrow> fst (Get c now key) = (Value item, True))"
  by (simp add: Get_def)

theorem Get_lookup_witness:
  "entries cache_a ''b'' = None \<and>
   fst (Get cache_a 1000 ''b'') = ('''', False) \<and>
   entries cache_a ''a'' = Some \<lparr>CreateTime = 1001, Expiration = 10001000, Value = ''1''\<rparr> \<and>
   (0 :: int64) <s 10001000 \<and> 10001000 <s UnixNano (1000 + 15000000) \<and>
   fst (Get cache_a (1000 + 15000000) ''a'') = ('''', False) \<and>
   \<not> 10001000 <s UnixNano (1000 + 5000000) \<and>
   fst (Get cache_a (1000 + 5000000) ''a'') = (''1'', True)"
proof -
  let ?item = "\<lparr>CreateTime = 1001, Expiration = 10001000, Value = ''1''\<rparr>"
  have absent: "entries cache_a ''b'' = None"
    and present: "entries cache_a ''a'' = Some ?item"
    by (simp_all add: cache_a_def entries_def)
  have past: "(0 :: int64) <s 10001000 \<and> 10001000 <s UnixNano (1000 + 15000000)"
    and live: "\<not> 10001000 <s UnixNano (1000 + 5000000)"
    by (simp_all add: UnixNano_def word_sless_alt)
  from Get_lookup [of cache_a "''b''" 1000] absent
  have 1: "fst (Get cache_a 1000 ''b'') = ('''', False)" by blast
  from Get_lookup [of cache_a "''a''" "1000 + 15000000"] present past
  have 2: "fst (Get cache_a (1000 + 15000000) ''a'') = ('''', False)" by simp
  from Get_lookup [of cache_a "''a''" "1000 + 5000000"] present live
  have 3: "fst (Get cache_a (1000 + 5000000) ''a'') = (''1'', True)" by simp
  from absent present past live 1 2 3 show ?thesis by blast
qed

text \<open>
  C8. \<open>Get\<close> leaves the cache as it found it: the map, with every entry, also an expired
  one that it reports as not found, and the two durations.
\<close>

theorem Get_leaves_cache: "snd (Get c now key) = c"
  by (simp add: Get_def split: option.splits)

theorem Get_leaves_cache_witness:
  "fst (Get cache_a 20000000 ''a'') = ('''', False) \<and>
   snd (Get cache_a 20000000 ''a'') = cache_a \<and>
   entries (snd (Get cache_a 20000000 ''a'')) ''a'' =
     Some \<lparr>CreateTime = 1001, Expiration = 10001000, Value = ''1''\<rparr>"
proof -
  have "fst (Get cache_a 20000000 ''a'') = ('''', False)"
    by (simp add: Get_def cache_a_def entries_def UnixNano_def word_sless_alt)
  moreover have "entries cache_a ''a'' =
      Some \<lparr>CreateTime = 1001, Expiration = 10001000, Value = ''1''\<rparr>"
    by (simp add: cache_a_def entries_def)
  ultimately show ?thesis
    using Get_leaves_cache [of cache_a 20000000 "''a''"] by simp
qed

subsection \<open>Writes followed by reads\<close>

text \<open>
  C2. On a cache whose default expiration is not positive, so that the duration 0 of
  the call stands for no expiration, \<open>Set(k, v, 0)\<close> succeeds and \<open>Get(k)\<close> on the
  resulting cache returns \<open>(v, true)\<close>, whatever the clock reads.
\<close>

theorem Set_Get_round_trip:
  assumes "data c \<noteq> None" and "defaultExpiration c \<le>s 0"
  shows "\<exists>c'. Set c now now' k v 0 = Inr c' \<and> fst (Get c' t k) = (v, True)"
  using assms by (auto simp: Set_def Get_def entries_def Let_def)

theorem Set_Get_round_trip_witness:
  "data cache_abc \<noteq> None \<and> defaultExpiration cache_abc \<le>s 0 \<and>
   (\<exists>c'. Set cache_abc 6000 6001 ''a'' ''4'' 0 = Inr c' \<and>
         fst (Get c' 6002 ''a'') = (''4'', True))"
proof -
  have alloc: "data cache_abc \<noteq> None" and ttl: "defaultExpiration cache_abc \<le>s 0"
    by (simp_all add: cache_abc_def)
  from Set_Get_round_trip [OF alloc ttl] alloc ttl show ?thesis by blast
qed

text \<open>
  C5. \<open>Set(key, value, 0)\<close> is \<open>Set(key, value, defaultExpiration)\<close>. When the default
  is positive the entry's \<open>Expiration\<close> is the \<open>UnixNano\<close> of the clock reading plus the
  default; for a clock in the range where nanoseconds since the epoch are positive and
  fit 64 bits that is their sum as a number, and \<open>Get\<close> at any later reading \<open>t\<close>
  reports not found: with a default of 20ms, so at 25ms after the \<open>Set\<close>.
\<close>

theorem Set_default_duration:
  assumes "data c \<noteq> None"
  shows "Set c now now' key val 0 = Set c now now' key val (defaultExpiration c) \<and>
    (0 <s defaultExpiration c \<longrightarrow>
      (\<exists>c'. Set c now now' key val 0 = Inr c' \<and>
         entries c' key = Some \<lparr>CreateTime = now',
           Expiration = UnixNano (Add now (defaultExpiration c)), Value = val\<rparr> \<and>
         (0 < now + sint (defaultExpiration c) \<and> now + sint (defaultExpiration c) < t \<and>
          t < 2 ^ 63 \<longrightarrow>
            sint (UnixNano (Add now (defaultExpiration c))) = now + sint (defaultExpiration c) \<and>
            fst (Get c' t key) = ('''', False))))"
proof (intro conjI impI)
  show "Set c now now' key val 0 = Set c now now' key val (defaultExpiration c)"
    by (simp add: Set_def)
next
  assume pos: "0 <s defaultExpiration c"
  let ?x = "now + sint (defaultExpiration c)"
  from assms obtain c' where c': "Set c now now' key val 0 = Inr c'"
    using Set_allocated by blast
  have e: "entries c' key = Some \<lparr>CreateTime = now',
           Expiration = UnixNano (Add now (defaultExpiration c)), Value = val\<rparr>"
    using Set_entries(1) [OF c'] pos by auto
  have "sint (UnixNano (Add now (defaultExpiration c))) = ?x \<and>
          fst (Get c' t key) = ('''', False)"
    if r: "0 < ?x \<and> ?x < t \<and> t < 2 ^ 63"
  proof -
    have 1: "sint (UnixNano ?x) = ?x" using r by (intro sint_UnixNano) auto
    have 2: "0 <s UnixNano ?x" using r by (intro UnixNano_positive) auto
    have 3: "UnixNano ?x <s UnixNano t" using r by (intro UnixNano_sless) auto
    show ?thesis using 1 2 3 e by (simp add: Get_def Add_def)
  qed
  with c' e show "\<exists>c'. Set c now now' key val 0 = Inr c' \<and>
         entries c' key = Some \<lparr>CreateTime = now',
           Expiration = UnixNano (Add now (defaultExpiration c)), Value = val\<rparr> \<and>
         (0 < ?x \<and> ?x < t \<and> t < 2 ^ 63 \<longrightarrow>
            sint (UnixNano (Add now (defaultExpiration c))) = ?x \<and>
            fst (Get c' t key) = ('''', False))"
    by blast
qed

theorem Set_default_duration_witness:
  "data (CacheCreate (20 * Millisecond) 0) \<noteq> None \<and>
   0 <s defaultExpiration (CacheCreate (20 * Millisecond) 0) \<and>
   (\<exists>c'. Set (CacheCreate (20 * Millisecond) 0)
            1700000000000000000 1700000000000000300 ''a'' ''1'' 0 = Inr c' \<and>
      entries c' ''a'' = Some \<lparr>CreateTime = 1700000000000000300,
        Expiration = 1700000000020000000, Value = ''1''\<rparr> \<and>
      fst (Get c' (1700000000000000000 + 25000000) ''a'') = ('''', False))"
proof -
  let ?c = "CacheCreate (20 * Millisecond) 0"
  have alloc: "data ?c \<noteq> None"
    by (simp add: CacheCreate_def)
  have d: "defaultExpiration ?c = 20000000"
    by (simp add: CacheCreate_def Millisecond_def)
  have pos: "0 <s defaultExpiration ?c"
    unfolding d by (simp add: word_sless_alt)
  have e: "UnixNano (Add 1700000000000000000 (defaultExpiration ?c)) = 1700000000020000000"
    unfolding d by (simp add: UnixNano_def Add_def)
  have r: "0 < 1700000000000000000 + sint (defaultExpiration ?c) \<and>
           1700000000000000000 + sint (defaultExpiration ?c) < 1700000000000000000 + 25000000 \<and>
           (1700000000000000000 + 25000000 :: int) < 2 ^ 63"
    unfolding d by simp
  from Set_default_duration [OF alloc, of 1700000000000000000 1700000000000000300
      "''a''" "''1''" "1700000000000000000 + 25000000"] pos r
  obtain c' where "Set ?c 1700000000000000000 1700000000000000300 ''a'' ''1'' 0 = Inr c'"
    and "entries c' ''a'' = Some \<lparr>CreateTime = 1700000000000000300,
        Expiration = UnixNano (Add 1700000000000000000 (defaultExpiration ?c)), Value = ''1''\<rparr>"
    and "fst (Get c' (1700000000000000000 + 25000000) ''a'') = ('''', False)"
    by blast
  with alloc pos show ?thesis
    unfolding e by blast
qed

text \<open>
  C6. On a cache with default expiration 0, \<open>Set(key, value, 0)\<close> stores the entry
  with \<open>Expiration = 0\<close>, and \<open>Get(key)\<close> on the resulting cache returns
  \<open>(value, true)\<close> at every clock reading \<open>t\<close>.
\<close>

theorem Set_never_expiring:
  assumes "data c \<noteq> None" and "defaultExpiration c = 0"
  shows "\<exists>c'. Set c now now' key val 0 = Inr c' \<and>
           entries c' key = Some \<lparr>CreateTime = now', Expiration = 0, Value = val\<rparr> \<and>
           fst (Get c' t key) = (val, True)"
proof -
  from assms(1) obtain c' where c': "Set c now now' key val 0 = Inr c'"
    using Set_allocated by blast
  have e: "entries c' key = Some \<lparr>CreateTime = now', Expiration = 0, Value = val\<rparr>"
    using Set_entries(1) [OF c'] assms(2) by simp
  then have "fst (Get c' t key) = (val, True)"
    by (simp add: Get_def)
  with c' e show ?thesis by blast
qed

theorem Set_never_expiring_witness:
  "data (CacheCreate 0 0) \<noteq> None \<and> defaultExpiration (CacheCreate 0 0) = 0 \<and>
   (\<exists>c'. Set (CacheCreate 0 0) 1700000000000000000 1700000000000000300 ''a'' ''1'' 0 = Inr c' \<and>
      entries c' ''a'' =
        Some \<lparr>CreateTime = 1700000000000000300, Expiration = 0, Value = ''1''\<rparr> \<and>
      fst (Get c' 9000000000000000000 ''a'') = (''1'', True))"
proof -
  have alloc: "data (CacheCreate 0 0) \<noteq> None" and d: "defaultExpiration (CacheCreate 0 0) = 0"
    by (simp_all add: CacheCreate_def)
  from Set_never_expiring [OF alloc d] alloc d show ?thesis by blast
qed

text \<open>
  C10. \<open>Set\<close> with a strictly negative duration does not take the default: it stores
  \<open>Expiration = 0\<close>, whatever the default is. \<open>Get\<close> then returns the entry as found at
  every clock reading, \<open>expiredKeys\<close> never lists its key, and the entry is still in
  the map after any number of iterations of the collector.
\<close>

theorem Set_negative_duration:
  assumes "data c \<noteq> None" and "d <s 0"
  shows "\<exists>c'. Set c now now' key val d = Inr c' \<and>
           entries c' key = Some \<lparr>CreateTime = now', Expiration = 0, Value = val\<rparr> \<and>
           fst (Get c' t key) = (val, True) \<and>
           key \<notin> set (expiredKeys c' order clock) \<and>
           entries (gC c' ticks) key = Some \<lparr>CreateTime = now', Expiration = 0, Value = val\<rparr>"
proof -
  from assms(2) have nz: "d \<noteq> 0" and np: "\<not> 0 <s d"
    by (auto simp: word_sless_alt)
  from assms(1) obtain c' where c': "Set c now now' key val d = Inr c'"
    using Set_allocated by blast
  have e: "entries c' key = Some \<lparr>CreateTime = now', Expiration = 0, Value = val\<rparr>"
    using Set_entries(1) [OF c'] nz np by simp
  have g: "fst (Get c' t key) = (val, True)"
    using e by (simp add: Get_def)
  have k: "key \<notin> set (expiredKeys c' order clock)"
    using e by (simp add: expiredKeys_set)
  have s: "entries (gC c' ticks) key = Some \<lparr>CreateTime = now', Expiration = 0, Value = val\<rparr>"
    using e by (intro gC_keeps) simp_all
  from c' e g k s show ?thesis by blast
qed

theorem Set_negative_duration_witness:
  "data (CacheCreate (20 * Millisecond) (10 * Millisecond)) \<noteq> None \<and>
   (- 5 :: Duration) <s 0 \<and>
   (\<exists>c'. Set (CacheCreate (20 * Millisecond) (10 * Millisecond))
            1700000000000000000 1700000000000000300 ''a'' ''1'' (- 5) = Inr c' \<and>
      entries c' ''a'' =
        Some \<lparr>CreateTime = 1700000000000000300, Expiration = 0, Value = ''1''\<rparr> \<and>
      fst (Get c' 9000000000000000000 ''a'') = (''1'', True) \<and>
      ''a'' \<notin> set (expiredKeys c' [''a''] (\<lambda>k. 9000000000000000000)) \<and>
      entries (gC c' [([''a''], \<lambda>k. 1700000000010000000), ([''a''], \<lambda>k. 1700000000020000000)])
        ''a'' = Some \<lparr>CreateTime = 1700000000000000300, Expiration = 0, Value = ''1''\<rparr>)"
proof -
  have alloc: "data (CacheCreate (20 * Millisecond) (10 * Millisecond)) \<noteq> None"
    by (simp add: CacheCreate_def)
  have neg: "(- 5 :: Duration) <s 0"
    by (simp add: word_sless_alt)
  from Set_negative_duration [OF alloc neg] alloc neg show ?thesis by blast
qed

subsection \<open>Delete\<close>

text \<open>
  C4. \<open>Delete(key)\<close> returns the error "Key not found" exactly when \<open>key\<close> is not in
  the map, and then leaves the cache as it was. When \<open>key\<close> is in the map it returns
  no error, the map afterwards is the old one without \<open>key\<close> and nothing else changes,
  and \<open>Get(key)\<close> on the resulting cache reports not found.
\<close>

theorem Delete_KeyNotFound:
  "(fst (Delete c key) = Some (errors_New ''error: Key not found'') \<longleftrightarrow> entries c key = None) \<and>
   (entries c key = None \<longrightarrow> snd (Delete c key) = c) \<and>
   (entries c key \<noteq> None \<longrightarrow>
      fst (Delete c key) = None \<and>
      entries (snd (Delete c key)) = (entries c)(key := None) \<and>
      defaultExpiration (snd (Delete c key)) = defaultExpiration c \<and>
      cleanupTime (snd (Delete c key)) = cleanupTime c \<and>
      fst (Get (snd (Delete c key)) now key) = ('''', False))"
  by (auto simp: Delete_def Get_def entries_def split: option.splits)

theorem Delete_KeyNotFound_witness:
  "entries (CacheCreate 0 0) ''missing'' = None \<and>
   Delete (CacheCreate 0 0) ''missing'' =
     (Some (errors_New ''error: Key not found''), CacheCreate 0 0) \<and>
   entries cache_abc ''a'' \<noteq> None \<and>
   fst (Delete cache_abc ''a'') = None \<and>
   entries (snd (Delete cache_abc ''a'')) ''a'' = None \<and>
   entries (snd (Delete cache_abc ''a'')) ''b'' = entries cache_abc ''b'' \<and>
   entries (snd (Delete cache_abc ''a'')) ''c'' = entries cache_abc ''c'' \<and>
   fst (Get (snd (Delete cache_abc ''a'')) 1000 ''a'') = ('''', False)"
proof -
  have absent: "entries (CacheCreate 0 0) ''missing'' = None"
    by (simp add: CacheCreate_def entries_def)
  have present: "entries cache_abc ''a'' \<noteq> None"
    by (simp add: cache_abc_def entries_def)
  from Delete_KeyNotFound [of "CacheCreate 0 0" "''missing''"] absent
  have 1: "Delete (CacheCreate 0 0) ''missing'' =
     (Some (errors_New ''error: Key not found''), CacheCreate 0 0)"
    by (simp add: prod_eq_iff)
  from Delete_KeyNotFound [of cache_abc "''a''" 1000] present
  have 2: "fst (Delete cache_abc ''a'') = None"
    and 3: "entries (snd (Delete cache_abc ''a'')) = (entries cache_abc)(''a'' := None)"
    and 4: "fst (Get (snd (Delete cache_abc ''a'')) 1000 ''a'') = ('''', False)"
    by blast+
  from absent present 1 2 4 show ?thesis
    unfolding 3 by simp
qed

text \<open>
  C9. For an entry that is in the map and expired (positive expiration, strictly
  passed by the clock), \<open>Get\<close> reports not found, while \<open>Delete\<close> on the same cache
  returns no error and removes the entry. The result of \<open>Delete\<close> is decided by the
  presence of the key alone: no clock and no expiration enters it.
\<close>

theorem Delete_ignores_expiration:
  assumes "entries c key = Some item"
    and "0 <s Expiration item" and "Expiration item <s UnixNano now"
  shows "fst (Get c now key) = ('''', False) \<and>
         fst (Delete c key) = None \<and>
         entries (snd (Delete c key)) = (entries c)(key := None) \<and>
         (\<forall>c2. fst (Delete c2 key) =
            (if key \<in> dom (entries c2) then None
             else Some (errors_New ''error: Key not found'')))"
  using assms by (auto simp: Get_def Delete_def entries_def split: option.splits)

theorem Delete_ignores_expiration_witness:
  "entries cache_a ''a'' = Some \<lparr>CreateTime = 1001, Expiration = 10001000, Value = ''1''\<rparr> \<and>
   (0 :: int64) <s 10001000 \<and> 10001000 <s UnixNano 15001000 \<and>
   fst (Get cache_a 15001000 ''a'') = ('''', False) \<and>
   fst (Delete cache_a ''a'') = None \<and>
   entries (snd (Delete cache_a ''a'')) ''a'' = None"
proof -
  let ?item = "\<lparr>CreateTime = 1001, Expiration = 10001000, Value = ''1''\<rparr>"
  have present: "entries cache_a ''a'' = Some ?item"
    by (simp add: cache_a_def entries_def)
  have pos: "0 <s Expiration ?item" and past: "Expiration ?item <s UnixNano 15001000"
    by (simp_all add: UnixNano_def word_sless_alt)
  from Delete_ignores_expiration [OF present pos past]
  have "fst (Get cache_a 15001000 ''a'') = ('''', False)"
    and "fst (Delete cache_a ''a'') = None"
    and "entries (snd (Delete cache_a ''a'')) = (entries cache_a)(''a'' := None)"
    by blast+
  with present pos past show ?thesis by simp
qed

subsection \<open>The collector\<close>

text \<open>
  C7. One iteration of the collector, \<open>expiredKeys\<close> and then \<open>clearValues\<close> on its
  result with nothing in between, removes from the map exactly the entries with a
  positive expiration that the clock reading of their visit has strictly passed. Every
  other entry is as before, in particular every entry with \<open>Expiration \<le> 0\<close>; the two
  durations are as before; and on an allocated map this is what \<open>gC_tick\<close> computes.
\<close>

theorem sweep_removes_exactly_expired:
  assumes "range_of c order"
  shows "entries (clearValues c (expiredKeys c order clock)) k =
           (case entries c k of
              None \<Rightarrow> None
            | Some i \<Rightarrow> if 0 <s Expiration i \<and> Expiration i <s UnixNano (clock k)
                       then None else Some i) \<and>
         (\<forall>i. entries c k = Some i \<and> Expiration i \<le>s 0 \<longrightarrow>
            entries (clearValues c (expiredKeys c order clock)) k = Some i) \<and>
         defaultExpiration (clearValues c (expiredKeys c order clock)) = defaultExpiration c \<and>
         cleanupTime (clearValues c (expiredKeys c order clock)) = cleanupTime c \<and>
         (data c \<noteq> None \<longrightarrow>
            gC_tick c order clock = Some (clearValues c (expiredKeys c order clock)))"
proof -
  have dom: "k \<in> set order \<longleftrightarrow> entries c k \<noteq> None"
    using assms by (auto simp: range_of_def)
  have 1: "entries (clearValues c (expiredKeys c order clock)) k =
           (case entries c k of
              None \<Rightarrow> None
            | Some i \<Rightarrow> if 0 <s Expiration i \<and> Expiration i <s UnixNano (clock k)
                       then None else Some i)"
    using dom by (auto simp: entries_clearValues expiredKeys_set split: option.splits)
  have 2: "\<forall>i. entries c k = Some i \<and> Expiration i \<le>s 0 \<longrightarrow>
            entries (clearValues c (expiredKeys c order clock)) k = Some i"
    unfolding 1 by auto
  show ?thesis
    using 1 2 by (simp add: clearValues_fields gC_tick_allocated)
qed

theorem sweep_removes_exactly_expired_witness:
  "range_of cache_abc [''c'', ''a'', ''b''] \<and>
   expiredKeys cache_abc [''c'', ''a'', ''b''] (\<lambda>k. 2000) = [''a''] \<and>
   entries (clearValues cache_abc [''a'']) ''a'' = None \<and>
   entries (clearValues cache_abc [''a'']) ''b'' =
     Some \<lparr>CreateTime = 20, Expiration = 0, Value = ''2''\<rparr> \<and>
   entries (clearValues cache_abc [''a'']) ''c'' =
     Some \<lparr>CreateTime = 30, Expiration = 5000, Value = ''3''\<rparr> \<and>
   gC_tick cache_abc [''c'', ''a'', ''b''] (\<lambda>k. 2000) = Some (clearValues cache_abc [''a''])"
proof -
  let ?order = "[''c'', ''a'', ''b'']"
  let ?clock = "\<lambda>k :: string. 2000 :: Time"
  have r: "range_of cache_abc ?order"
    by (auto simp: range_of_def cache_abc_def entries_def dom_def)
  have keys: "expiredKeys cache_abc ?order ?clock = [''a'']"
    by (simp add: expiredKeys_def cache_abc_def entries_def UnixNano_def word_sless_alt)
  have es: "entries cache_abc ''a'' = Some \<lparr>CreateTime = 10, Expiration = 1010, Value = ''1''\<rparr>"
    "entries cache_abc ''b'' = Some \<lparr>CreateTime = 20, Expiration = 0, Value = ''2''\<rparr>"
    "entries cache_abc ''c'' = Some \<lparr>CreateTime = 30, Expiration = 5000, Value = ''3''\<rparr>"
    "data cache_abc \<noteq> None"
    by (simp_all add: cache_abc_def entries_def)
  have cmp: "(0 :: int64) <s 1010" "(1010 :: int64) <s UnixNano 2000"
    "\<not> (0 :: int64) <s 0" "\<not> (5000 :: int64) <s UnixNano 2000"
    by (simp_all add: UnixNano_def word_sless_alt)
  from sweep_removes_exactly_expired [OF r, of ?clock "''a''"]
    sweep_removes_exactly_expired [OF r, of ?clock "''b''"]
    sweep_removes_exactly_expired [OF r, of ?clock "''c''"]
  show ?thesis
    unfolding keys using r es cmp by simp
qed

end
